theory Spec2Isabelle
  imports Complex_Main
begin

section \<open>The relay server of COMMONprotocol (src/internal/server.py)\<close>

text \<open>
  The server keeps one module-level dictionary, \<^verbatim>\<open>CONNECTED_AGENTS\<close>, from agent
  identifiers to websocket connections, and runs one coroutine
  \<^verbatim>\<open>handle_agent_connection\<close> per connection. The coroutine reads a first frame
  (the registration handshake), then loops over the following frames and routes each one.

  The embedding is a state machine. The shared state is the record \<open>world\<close>: the
  dictionary, the frames delivered so far to every connection, and the set of connections
  whose transport is closed (a \<^verbatim>\<open>send\<close> on one of them raises). One call of
  \<open>handle_frame\<close> is the work the coroutine does between two receptions. The
  coroutine is suspended at each \<^verbatim>\<open>await\<close>, and other coroutines may run then. That
  matters in one place, the broadcast loop, which goes back to the shared dictionary
  after each \<^verbatim>\<open>send\<close>: there a \<open>schedule\<close> says what the other coroutines do to
  the dictionary during each suspension. Everywhere else the dictionary is read before
  the only \<^verbatim>\<open>send\<close> of the branch. \<open>handle_step\<close> is \<open>handle_frame\<close> with the
  empty schedule: no other coroutine touches the dictionary while the frame is handled.
  \<^verbatim>\<open>json.loads\<close> and \<^verbatim>\<open>json.dumps\<close> belong to the Python library: a received
  frame carries its text together with what \<^verbatim>\<open>json.loads\<close> makes of it, and a frame
  built by the server is kept as the value handed to \<^verbatim>\<open>json.dumps\<close>. Log calls have
  no effect on the state and are left out.
\<close>

subsection \<open>Python values\<close>

text \<open>
  What \<^verbatim>\<open>json.loads\<close> returns. \<open>JNum\<close> stands for Python's \<^verbatim>\<open>int\<close> and for
  the finite \<^verbatim>\<open>float\<close>s (Python compares and hashes the two by numeric value);
  \<open>JObj kvs\<close> is the dictionary whose lookup is \<open>map_of kvs\<close>. \<open>JNull\<close> is
  \<^verbatim>\<open>None\<close>.
\<close>

datatype json =
    JNull
  | JBool bool
  | JNum rat
  | JStr string
  | JArr "json list"
  | JObj "(string \<times> json) list"

datatype exn = JSONDecodeError | AttributeError | TypeError | ConnectionClosed | RuntimeError

text \<open>Truth value of a Python object, as \<^verbatim>\<open>not x\<close> and \<^verbatim>\<open>all([...])\<close> use it.\<close>

fun truthy :: "json \<Rightarrow> bool" where
  "truthy JNull = False"
| "truthy (JBool b) = b"
| "truthy (JNum q) = (q \<noteq> 0)"
| "truthy (JStr s) = (s \<noteq> [])"
| "truthy (JArr xs) = (xs \<noteq> [])"
| "truthy (JObj kvs) = (kvs \<noteq> [])"

text \<open>
  Dictionary keys. Python identifies keys that are equal and hash alike, so \<^verbatim>\<open>True\<close>
  and \<^verbatim>\<open>1\<close> are one key; lists and dictionaries are unhashable, and using one as a key
  raises \<^verbatim>\<open>TypeError\<close> (the result \<open>None\<close> here).
\<close>

datatype key = KNone | KNum rat | KStr string

fun key_of :: "json \<Rightarrow> key option" where
  "key_of JNull = Some KNone"
| "key_of (JBool b) = Some (KNum (if b then 1 else 0))"
| "key_of (JNum q) = Some (KNum q)"
| "key_of (JStr s) = Some (KStr s)"
| "key_of (JArr xs) = None"
| "key_of (JObj kvs) = None"

text \<open>\<^verbatim>\<open>message.get(name)\<close> on a decoded object: the value, or \<^verbatim>\<open>None\<close>.\<close>

definition get :: "(string \<times> json) list \<Rightarrow> string \<Rightarrow> json" where
  "get kvs name = (case map_of kvs name of None \<Rightarrow> JNull | Some v \<Rightarrow> v)"

subsection \<open>Insertion-ordered dictionaries\<close>

text \<open>
  A Python \<^verbatim>\<open>dict\<close> keeps its keys in insertion order, which
  \<^verbatim>\<open>list(CONNECTED_AGENTS.keys())\<close> and the broadcast loop observe. It is modelled as
  an association list: \<open>dict_set\<close> is \<^verbatim>\<open>d[k] = v\<close> (an existing key keeps its
  place), \<open>dict_del\<close> is \<^verbatim>\<open>del d[k]\<close>, \<open>dict_has\<close> is \<^verbatim>\<open>k in d\<close> and
  \<open>map_of\<close> is the lookup.
\<close>

primrec dict_set :: "'k \<Rightarrow> 'v \<Rightarrow> ('k \<times> 'v) list \<Rightarrow> ('k \<times> 'v) list" where
  "dict_set k v [] = [(k, v)]"
| "dict_set k v (p # ps) = (if fst p = k then (fst p, v) # ps else p # dict_set k v ps)"

definition dict_del :: "'k \<Rightarrow> ('k \<times> 'v) list \<Rightarrow> ('k \<times> 'v) list" where
  "dict_del k d = filter (\<lambda>p. fst p \<noteq> k) d"

definition dict_has :: "'k \<Rightarrow> ('k \<times> 'v) list \<Rightarrow> bool" where
  "dict_has k d = (map_of d k \<noteq> None)"

subsection \<open>Shared state and frames\<close>

type_synonym conn = nat

text \<open>
  The content of a \<^verbatim>\<open>SERVER_ERROR\<close> frame, one constructor per place of the source
  that builds one (the text is fixed there, up to the value that is formatted into it):
  \<^item> \<open>MissingAgentId\<close>: "Registration failed: 'agent_id' is missing." (line 63)
  \<^item> \<open>InvalidToken\<close>: "Authentication failed: Invalid token." (line 67)
  \<^item> \<open>IdInUse a\<close>: "Agent ID '\<open>a\<close>' is already in use. Please choose a different ID." (line 71)
  \<^item> \<open>NotRegisterFirst\<close>: "Initial message must be an 'AGENT_REGISTER' type with auth_token." (line 77)
  \<^item> \<open>IncompleteDirect\<close>: "Message missing sender_id, receiver_id, or content." (line 95)
  \<^item> \<open>NotOnline r\<close>: "Agent '\<open>r\<close>' is not online. Message not delivered." (line 109)
  \<^item> \<open>IncompleteBroadcast\<close>: "Broadcast message missing sender_id or content." (line 118)
  \<^item> \<open>UnknownType t\<close>: "Unknown message type '\<open>t\<close>'." (line 147)
  \<^item> \<open>InvalidJSON\<close>: "Invalid JSON format received." (line 154)
  \<^item> \<open>InternalError\<close>: "Internal server error while processing your message." (line 160)
\<close>

datatype server_error =
    MissingAgentId
  | InvalidToken
  | IdInUse json
  | NotRegisterFirst
  | IncompleteDirect
  | NotOnline json
  | IncompleteBroadcast
  | UnknownType json
  | InvalidJSON
  | InternalError

text \<open>
  What the server puts on a connection: the text of a received frame, passed on as it
  came (\<open>Wire\<close>), or one of the three frames it builds itself.
\<close>

datatype payload =
    Wire string
  | ServerInfo json
  | ServerError server_error
  | ListResponse "key list" json

record world =
  CONNECTED_AGENTS :: "(key \<times> conn) list"
  sent :: "(conn \<times> payload) list"
  closed_conns :: "conn set"

text \<open>
  What \<^verbatim>\<open>await websocket.recv()\<close> and the \<^verbatim>\<open>async for\<close> loop yield: a frame (its
  text and the result of \<^verbatim>\<open>json.loads\<close> on it, \<open>None\<close> when that raises
  \<^verbatim>\<open>JSONDecodeError\<close>), or the end of the connection.
\<close>

datatype event = Recv string "json option" | Disconnect

text \<open>
  \<^verbatim>\<open>await ws.send(p)\<close>: raises on a closed connection, and otherwise delivers. Every
  effectful function returns the state it leaves together with the exception it raised,
  if any.
\<close>

definition send :: "world \<Rightarrow> conn \<Rightarrow> payload \<Rightarrow> world \<times> exn option" where
  "send w ws p =
     (if ws \<in> closed_conns w then (w, Some ConnectionClosed)
      else (w\<lparr>sent := sent w @ [(ws, p)]\<rparr>, None))"

subsection \<open>The registry operations (lines 25 to 42)\<close>

definition register_agent :: "world \<Rightarrow> conn \<Rightarrow> json \<Rightarrow> world \<times> exn option" where
  "register_agent w websocket agent_id =
     (case key_of agent_id of
        None \<Rightarrow> (w, Some TypeError)
      | Some k \<Rightarrow>
          send (w\<lparr>CONNECTED_AGENTS := dict_set k websocket (CONNECTED_AGENTS w)\<rparr>)
            websocket (ServerInfo agent_id))"

definition unregister_agent :: "world \<Rightarrow> json \<Rightarrow> world \<times> exn option" where
  "unregister_agent w agent_id =
     (case key_of agent_id of
        None \<Rightarrow> (w, Some TypeError)
      | Some k \<Rightarrow>
          (if dict_has k (CONNECTED_AGENTS w)
           then (w\<lparr>CONNECTED_AGENTS := dict_del k (CONNECTED_AGENTS w)\<rparr>, None)
           else (w, None)))"

subsection \<open>The handshake (lines 50 to 78)\<close>

text \<open>
  How the first part of the coroutine ends: it goes on to the message loop, it returns,
  or an exception leaves it. The local variable \<^verbatim>\<open>agent_id\<close> is returned too, since
  the \<^verbatim>\<open>finally\<close> block reads it.
\<close>

datatype flow = Proceed | Return | Raise exn

definition and_return :: "world \<times> exn option \<Rightarrow> json \<Rightarrow> world \<times> json \<times> flow" where
  "and_return r agent_id =
     (fst r, agent_id, (case snd r of None \<Rightarrow> Return | Some e \<Rightarrow> Raise e))"

definition handshake :: "string \<Rightarrow> world \<Rightarrow> conn \<Rightarrow> event \<Rightarrow> world \<times> json \<times> flow" where
  "handshake SHARED_SECRET w websocket ev =
     (case ev of
        Disconnect \<Rightarrow> (w, JNull, Raise ConnectionClosed)
      | Recv auth_reg_message_str dec \<Rightarrow>
          (case dec of
             None \<Rightarrow> (w, JNull, Raise JSONDecodeError)
           | Some auth_reg_message \<Rightarrow>
               (case auth_reg_message of
                  JObj kvs \<Rightarrow>
                    (if get kvs ''type'' = JStr ''AGENT_REGISTER'' then
                       (let agent_id = get kvs ''agent_id'';
                            auth_token = get kvs ''auth_token''
                        in if \<not> truthy agent_id then
                             and_return (send w websocket (ServerError MissingAgentId)) agent_id
                           else if auth_token \<noteq> JStr SHARED_SECRET then
                             and_return (send w websocket (ServerError InvalidToken)) agent_id
                           else
                             (case key_of agent_id of
                                None \<Rightarrow> (w, agent_id, Raise TypeError)
                              | Some k \<Rightarrow>
                                  if dict_has k (CONNECTED_AGENTS w) then
                                    and_return (send w websocket (ServerError (IdInUse agent_id)))
                                      agent_id
                                  else
                                    (case register_agent w websocket agent_id of
                                       (w', None) \<Rightarrow> (w', agent_id, Proceed)
                                     | (w', Some e) \<Rightarrow> (w', agent_id, Raise e))))
                     else
                       and_return (send w websocket (ServerError NotRegisterFirst)) JNull)
                | _ \<Rightarrow> (w, JNull, Raise AttributeError))))"

text \<open>
  The \<^verbatim>\<open>finally\<close> block (lines 169 to 171). An exception of
  \<^verbatim>\<open>unregister_agent\<close> leaves the coroutine, with the dictionary as it was.
\<close>

definition finally_block :: "world \<Rightarrow> json \<Rightarrow> world" where
  "finally_block w agent_id =
     (if truthy agent_id then fst (unregister_agent w agent_id) else w)"

subsection \<open>The message loop (lines 81 to 161)\<close>

text \<open>
  What another coroutine does to the dictionary while this one is suspended in a
  \<^verbatim>\<open>send\<close>: it registers an agent (line 31) or unregisters one (lines 40 and 41).
  A \<open>schedule\<close> lists this for the sends of one broadcast loop, in their order;
  \<open>None\<close>, and the end of the list, mean that the dictionary is left alone. At most
  one change per suspension is modelled: after a registration and an unregistration
  in the same suspension the size is back to what it was, and what the iterator yields
  next then depends on the layout of the hash table.
\<close>

datatype interference = Joined key conn | Left key

type_synonym schedule = "interference option list"

fun interfere :: "world \<Rightarrow> interference \<Rightarrow> world" where
  "interfere w (Joined k ws) = w\<lparr>CONNECTED_AGENTS := dict_set k ws (CONNECTED_AGENTS w)\<rparr>"
| "interfere w (Left k) = w\<lparr>CONNECTED_AGENTS := dict_del k (CONNECTED_AGENTS w)\<rparr>"

definition resume :: "world \<Rightarrow> schedule \<Rightarrow> world" where
  "resume w sched = (case sched of Some x # _ \<Rightarrow> interfere w x | _ \<Rightarrow> w)"

text \<open>
  The broadcast loop over \<^verbatim>\<open>CONNECTED_AGENTS.items()\<close> (lines 124 to 130). The loop
  iterates over the dictionary itself, not over a copy, and awaits a \<^verbatim>\<open>send\<close> in its
  body. The iterator remembers the size of the dictionary when the loop starts
  (\<open>di_used\<close>) and its position \<open>i\<close>; each time it is asked for the next item it first
  compares the size of the dictionary with the remembered one and raises
  \<^verbatim>\<open>RuntimeError\<close> (dictionary changed size during iteration) when they differ, also
  when no item is left. That exception is raised by the \<^verbatim>\<open>for\<close> statement, outside
  the \<^verbatim>\<open>try\<close> of lines 126 to 130, which catches the exceptions of the \<^verbatim>\<open>send\<close>
  only. The comparison \<^verbatim>\<open>agent_id_online != sender_id\<close> is Python's equality
  between a key of the dictionary and the decoded \<^verbatim>\<open>sender_id\<close>.
\<close>

function broadcast ::
  "world \<Rightarrow> json \<Rightarrow> string \<Rightarrow> nat \<Rightarrow> schedule \<Rightarrow> nat \<Rightarrow> world \<times> exn option" where
  "broadcast w sender_id message_str di_used sched i =
     (if length (CONNECTED_AGENTS w) \<noteq> di_used then (w, Some RuntimeError)
      else if di_used \<le> i then (w, None)
      else if key_of sender_id \<noteq> Some (fst (CONNECTED_AGENTS w ! i))
      then broadcast
             (resume (fst (send w (snd (CONNECTED_AGENTS w ! i)) (Wire message_str))) sched)
             sender_id message_str di_used (tl sched) (Suc i)
      else broadcast w sender_id message_str di_used sched (Suc i))"
  by pat_completeness auto
termination
  by (relation "measure (\<lambda>(w, sender_id, message_str, di_used, sched, i). di_used - i)") auto

declare broadcast.simps [simp del]

text \<open>The body of the inner \<^verbatim>\<open>try\<close> (lines 83 to 148).\<close>

definition route ::
  "schedule \<Rightarrow> world \<Rightarrow> conn \<Rightarrow> string \<Rightarrow> json option \<Rightarrow> world \<times> exn option" where
  "route sched w websocket message_str dec =
     (case dec of
        None \<Rightarrow> (w, Some JSONDecodeError)
      | Some message \<Rightarrow>
          (case message of
             JObj kvs \<Rightarrow>
               (let message_type = get kvs ''type'';
                    sender_id = get kvs ''sender_id''
                in if message_type = JStr ''AGENT_MESSAGE'' then
                     (let receiver_id = get kvs ''receiver_id'';
                          content = get kvs ''content''
                      in if \<not> (truthy sender_id \<and> truthy receiver_id \<and> truthy content) then
                           send w websocket (ServerError IncompleteDirect)
                         else
                           (case key_of receiver_id of
                              None \<Rightarrow> (w, Some TypeError)
                            | Some k \<Rightarrow>
                                (case map_of (CONNECTED_AGENTS w) k of
                                   Some receiver_websocket \<Rightarrow>
                                     send w receiver_websocket (Wire message_str)
                                 | None \<Rightarrow>
                                     send w websocket (ServerError (NotOnline receiver_id)))))
                   else if message_type = JStr ''BROADCAST_MESSAGE'' then
                     (let content = get kvs ''content''
                      in if \<not> (truthy sender_id \<and> truthy content) then
                           send w websocket (ServerError IncompleteBroadcast)
                         else
                           broadcast w sender_id message_str
                             (length (CONNECTED_AGENTS w)) sched 0)
                   else if message_type = JStr ''LIST_AGENTS_REQUEST'' then
                     send w websocket
                       (ListResponse (map fst (CONNECTED_AGENTS w)) sender_id)
                   else
                     send w websocket (ServerError (UnknownType message_type)))
           | _ \<Rightarrow> (w, Some AttributeError)))"

text \<open>
  One turn of the loop with its two handlers (lines 150 to 161): a
  \<^verbatim>\<open>JSONDecodeError\<close> and any other exception are answered on the connection itself;
  an exception of that answer leaves the loop.
\<close>

definition loop_iteration ::
  "schedule \<Rightarrow> world \<Rightarrow> conn \<Rightarrow> string \<Rightarrow> json option \<Rightarrow> world \<times> exn option" where
  "loop_iteration sched w websocket message_str dec =
     (case route sched w websocket message_str dec of
        (w', None) \<Rightarrow> (w', None)
      | (w', Some JSONDecodeError) \<Rightarrow> send w' websocket (ServerError InvalidJSON)
      | (w', Some _) \<Rightarrow> send w' websocket (ServerError InternalError))"

subsection \<open>The coroutine as a state machine\<close>

text \<open>
  A connection waits for its first frame (\<open>Authenticating\<close>), is in the message loop
  with the value of its local \<^verbatim>\<open>agent_id\<close> (\<open>Registered\<close>), or its coroutine has
  ended (\<open>Closed\<close>). When the coroutine ends, by \<^verbatim>\<open>return\<close>, by the end of the loop or
  by an exception, the \<^verbatim>\<open>finally\<close> block runs and the websockets library closes the
  connection.
\<close>

datatype session = Authenticating | Registered json | Closed

definition close_connection :: "world \<Rightarrow> conn \<Rightarrow> world" where
  "close_connection w websocket = w\<lparr>closed_conns := insert websocket (closed_conns w)\<rparr>"

fun handle_frame ::
  "string \<Rightarrow> schedule \<Rightarrow> world \<Rightarrow> conn \<Rightarrow> session \<Rightarrow> event \<Rightarrow> world \<times> session" where
  "handle_frame SHARED_SECRET sched w websocket Authenticating ev =
     (case handshake SHARED_SECRET w websocket ev of
        (w', agent_id, Proceed) \<Rightarrow> (w', Registered agent_id)
      | (w', agent_id, _) \<Rightarrow>
          (close_connection (finally_block w' agent_id) websocket, Closed))"
| "handle_frame SHARED_SECRET sched w websocket (Registered agent_id) (Recv message_str dec) =
     (case loop_iteration sched w websocket message_str dec of
        (w', None) \<Rightarrow> (w', Registered agent_id)
      | (w', Some e) \<Rightarrow>
          (close_connection (finally_block w' agent_id) websocket, Closed))"
| "handle_frame SHARED_SECRET sched w websocket (Registered agent_id) Disconnect =
     (close_connection (finally_block w agent_id) websocket, Closed)"
| "handle_frame SHARED_SECRET sched w websocket Closed ev = (w, Closed)"

text \<open>
  The step in which no other coroutine changes the dictionary while the frame is handled.
\<close>

definition handle_step :: "string \<Rightarrow> world \<Rightarrow> conn \<Rightarrow> session \<Rightarrow> event \<Rightarrow> world \<times> session" where
  "handle_step SHARED_SECRET w websocket s ev = handle_frame SHARED_SECRET [] w websocket s ev"

text \<open>
  The whole server: every connection has its session, and the frames of all connections
  arrive in some order and are handled one after the other. It starts with an empty
  dictionary.
\<close>

type_synonym relay = "world \<times> (conn \<Rightarrow> session)"

definition relay_step :: "string \<Rightarrow> relay \<Rightarrow> conn \<times> event \<Rightarrow> relay" where
  "relay_step SHARED_SECRET r ce =
     (case handle_step SHARED_SECRET (fst r) (fst ce) (snd r (fst ce)) (snd ce) of
        (w', s') \<Rightarrow> (w', (snd r)(fst ce := s')))"

definition start :: relay where
  "start = (\<lparr>CONNECTED_AGENTS = [], sent = [], closed_conns = {}\<rparr>, \<lambda>c. Authenticating)"

definition run :: "string \<Rightarrow> (conn \<times> event) list \<Rightarrow> relay" where
  "run SHARED_SECRET evs = foldl (relay_step SHARED_SECRET) start evs"

text \<open>
  What holds of every state the server reaches in this way: the keys of the dictionary are pairwise
  different, and every entry belongs to a connection that is open and whose coroutine is
  in the message loop with the entry's key as its \<^verbatim>\<open>agent_id\<close>.
\<close>

definition relay_inv :: "relay \<Rightarrow> bool" where
  "relay_inv r =
     (distinct (map fst (CONNECTED_AGENTS (fst r)))
      \<and> (\<forall>p \<in> set (CONNECTED_AGENTS (fst r)).
            snd p \<notin> closed_conns (fst r)
            \<and> (\<exists>a. snd r (snd p) = Registered a \<and> truthy a \<and> key_of a = Some (fst p))))"

section \<open>Properties\<close>

subsection \<open>Dictionaries\<close>

lemma dict_has_iff: "dict_has k d = (k \<in> set (map fst d))"
  by (simp add: dict_has_def map_of_eq_None_iff)

lemma dict_del_idem: "dict_del k (dict_del k d) = dict_del k d"
  by (simp add: dict_del_def)

lemma dict_del_absent: "\<not> dict_has k d \<Longrightarrow> dict_del k d = d"
  by (induction d) (auto simp: dict_del_def dict_has_def)

lemma dict_has_del: "\<not> dict_has k (dict_del k d)"
  by (induction d) (auto simp: dict_del_def dict_has_def)

lemma map_of_dict_del: "map_of (dict_del k d) k' = (if k' = k then None else map_of d k')"
  by (induction d) (auto simp: dict_del_def)

lemma dict_set_keys:
  "map fst (dict_set k v d) = (if k \<in> set (map fst d) then map fst d else map fst d @ [k])"
  by (induction d) auto

lemma dict_set_absent: "\<not> dict_has k d \<Longrightarrow> dict_set k v d = d @ [(k, v)]"
  by (induction d) (auto simp: dict_has_def)

lemma map_of_dict_set: "map_of (dict_set k v d) k' = (if k' = k then Some v else map_of d k')"
  by (induction d) auto

lemma distinct_dict_set: "distinct (map fst d) \<Longrightarrow> distinct (map fst (dict_set k v d))"
  by (simp add: dict_set_keys)

lemma distinct_dict_del: "distinct (map fst d) \<Longrightarrow> distinct (map fst (dict_del k d))"
  by (simp add: dict_del_def distinct_map_filter)

lemma count_list_distinct:
  "distinct xs \<Longrightarrow> count_list xs k = (if k \<in> set xs then 1 else 0)"
  by (induction xs) auto

lemma keys_once:
  "distinct (map fst d) \<Longrightarrow> count_list (map fst d) k = (if dict_has k d then 1 else 0)"
  by (simp only: dict_has_iff count_list_distinct)

subsection \<open>Sending and broadcasting\<close>

lemma send_open:
  "ws \<notin> closed_conns w \<Longrightarrow> send w ws p = (w\<lparr>sent := sent w @ [(ws, p)]\<rparr>, None)"
  by (simp add: send_def)

lemma send_registry: "CONNECTED_AGENTS (fst (send w ws p)) = CONNECTED_AGENTS w"
  by (simp add: send_def)

lemma handle_step_simps [simp]:
  "handle_step SHARED_SECRET w websocket Authenticating ev =
     (case handshake SHARED_SECRET w websocket ev of
        (w', agent_id, Proceed) \<Rightarrow> (w', Registered agent_id)
      | (w', agent_id, _) \<Rightarrow>
          (close_connection (finally_block w' agent_id) websocket, Closed))"
  "handle_step SHARED_SECRET w websocket (Registered agent_id) (Recv message_str dec) =
     (case loop_iteration [] w websocket message_str dec of
        (w', None) \<Rightarrow> (w', Registered agent_id)
      | (w', Some e) \<Rightarrow>
          (close_connection (finally_block w' agent_id) websocket, Closed))"
  "handle_step SHARED_SECRET w websocket (Registered agent_id) Disconnect =
     (close_connection (finally_block w agent_id) websocket, Closed)"
  "handle_step SHARED_SECRET w websocket Closed ev = (w, Closed)"
  by (simp_all add: handle_step_def)

text \<open>
  When the dictionary is left alone, the broadcast loop delivers the frame, in the order
  of the dictionary, to every entry whose key differs from \<^verbatim>\<open>sender_id\<close> and whose
  connection takes it; it changes nothing else and raises nothing.
\<close>

lemma broadcast_undisturbed_from:
  "length (CONNECTED_AGENTS w) = n \<Longrightarrow>
   broadcast w sender_id message_str n [] i =
     (w\<lparr>sent := sent w @ map (\<lambda>p. (snd p, Wire message_str))
        (filter (\<lambda>p. key_of sender_id \<noteq> Some (fst p) \<and> snd p \<notin> closed_conns w)
           (drop i (CONNECTED_AGENTS w)))\<rparr>, None)"
proof (induction "n - i" arbitrary: i w)
  case 0
  then show ?case
    by (subst broadcast.simps) simp
next
  case (Suc d)
  then have i: "i < length (CONNECTED_AGENTS w)" and d: "d = n - Suc i"
    by auto
  have dr: "drop i (CONNECTED_AGENTS w) = CONNECTED_AGENTS w ! i # drop (Suc i) (CONNECTED_AGENTS w)"
    using i by (simp add: Cons_nth_drop_Suc)
  show ?case
    using Suc.prems i Suc.hyps(1) [OF d]
    by (subst broadcast.simps) (simp add: dr resume_def send_def)
qed

lemma broadcast_sent:
  "broadcast w sender_id message_str (length (CONNECTED_AGENTS w)) [] 0 =
     (w\<lparr>sent := sent w @ map (\<lambda>p. (snd p, Wire message_str))
        (filter (\<lambda>p. key_of sender_id \<noteq> Some (fst p) \<and> snd p \<notin> closed_conns w)
           (CONNECTED_AGENTS w))\<rparr>, None)"
  using broadcast_undisturbed_from [of w "length (CONNECTED_AGENTS w)" sender_id message_str 0]
  by simp

subsection \<open>The dictionary has each key once\<close>

text \<open>
  The message loop itself never writes the dictionary; the handshake adds at most one key and
  the \<^verbatim>\<open>finally\<close> block removes at most one. So the keys of the association list
  stay pairwise different, as the keys of a Python dictionary are.
\<close>

lemma route_registry:
  "CONNECTED_AGENTS (fst (route [] w websocket message_str dec)) = CONNECTED_AGENTS w"
  by (simp add: route_def send_registry broadcast_sent Let_def
           split: option.split json.split)

lemma loop_iteration_registry:
  "CONNECTED_AGENTS (fst (loop_iteration [] w websocket message_str dec)) = CONNECTED_AGENTS w"
proof -
  obtain w' r where rt: "route [] w websocket message_str dec = (w', r)"
    by (cases "route [] w websocket message_str dec")
  have "CONNECTED_AGENTS w' = CONNECTED_AGENTS w"
    using route_registry [of w websocket message_str dec] by (simp add: rt)
  then show ?thesis
    by (simp add: loop_iteration_def rt send_registry split: option.split exn.split)
qed

lemma finally_block_distinct:
  "distinct (map fst (CONNECTED_AGENTS w)) \<Longrightarrow>
   distinct (map fst (CONNECTED_AGENTS (finally_block w agent_id)))"
  by (simp add: finally_block_def unregister_agent_def distinct_dict_del split: option.split)

lemma handshake_distinct:
  "distinct (map fst (CONNECTED_AGENTS w)) \<Longrightarrow>
   distinct (map fst (CONNECTED_AGENTS (fst (handshake SHARED_SECRET w websocket ev))))"
  by (auto simp: handshake_def and_return_def register_agent_def send_def distinct_dict_set
        Let_def split: event.split option.split json.split if_splits)

lemma handle_step_distinct:
  assumes "distinct (map fst (CONNECTED_AGENTS w))"
  shows "distinct (map fst (CONNECTED_AGENTS (fst (handle_step SHARED_SECRET w websocket s ev))))"
proof (cases s)
  case Authenticating
  obtain w' a f where h: "handshake SHARED_SECRET w websocket ev = (w', a, f)"
    by (cases "handshake SHARED_SECRET w websocket ev")
  have "distinct (map fst (CONNECTED_AGENTS w'))"
    using handshake_distinct [OF assms, of SHARED_SECRET websocket ev] by (simp add: h)
  then show ?thesis
    using finally_block_distinct [of w' a]
    by (simp add: Authenticating h close_connection_def split: flow.split)
next
  case (Registered a)
  show ?thesis
  proof (cases ev)
    case (Recv message_str dec)
    obtain w' r where l: "loop_iteration [] w websocket message_str dec = (w', r)"
      by (cases "loop_iteration [] w websocket message_str dec")
    have "CONNECTED_AGENTS w' = CONNECTED_AGENTS w"
      using loop_iteration_registry [of w websocket message_str dec] by (simp add: l)
    then show ?thesis
      using assms finally_block_distinct [of w' a]
      by (simp add: Registered Recv l close_connection_def split: option.split)
  next
    case Disconnect
    then show ?thesis
      using finally_block_distinct [OF assms, of a]
      by (simp add: Registered close_connection_def)
  qed
next
  case Closed
  then show ?thesis using assms by simp
qed

lemma relay_steps_distinct:
  "distinct (map fst (CONNECTED_AGENTS (fst r))) \<Longrightarrow>
   distinct (map fst (CONNECTED_AGENTS (fst (foldl (relay_step SHARED_SECRET) r evs))))"
proof (induction evs arbitrary: r)
  case Nil
  then show ?case by simp
next
  case (Cons ce evs)
  obtain w' s' where
    hs: "handle_step SHARED_SECRET (fst r) (fst ce) (snd r (fst ce)) (snd ce) = (w', s')"
    by (cases "handle_step SHARED_SECRET (fst r) (fst ce) (snd r (fst ce)) (snd ce)")
  have "distinct (map fst (CONNECTED_AGENTS (fst (relay_step SHARED_SECRET r ce))))"
    using handle_step_distinct [OF Cons.prems, of SHARED_SECRET "fst ce" "snd r (fst ce)" "snd ce"]
    by (simp add: relay_step_def hs)
  then show ?case
    using Cons.IH by simp
qed

lemma run_distinct: "distinct (map fst (CONNECTED_AGENTS (fst (run SHARED_SECRET evs))))"
  unfolding run_def by (rule relay_steps_distinct) (simp add: start_def)

subsection \<open>An accepted registration\<close>

text \<open>
  A first frame of type \<^verbatim>\<open>AGENT_REGISTER\<close> with a non-empty string \<^verbatim>\<open>agent_id\<close>
  that is not a key yet and with the shared secret as \<^verbatim>\<open>auth_token\<close>: the connection
  is appended to the dictionary under that identifier, it is sent the welcome frame, and
  the coroutine enters the message loop. Afterwards the lookup of the identifier gives the
  connection.
\<close>

lemma register_accepted:
  assumes "websocket \<notin> closed_conns w"
    and "get kvs ''type'' = JStr ''AGENT_REGISTER''"
    and "get kvs ''agent_id'' = JStr A" and "A \<noteq> []"
    and "get kvs ''auth_token'' = JStr SHARED_SECRET"
    and "\<not> dict_has (KStr A) (CONNECTED_AGENTS w)"
  shows "handle_step SHARED_SECRET w websocket Authenticating (Recv raw (Some (JObj kvs)))
       = (w\<lparr>CONNECTED_AGENTS := CONNECTED_AGENTS w @ [(KStr A, websocket)],
             sent := sent w @ [(websocket, ServerInfo (JStr A))]\<rparr>, Registered (JStr A))"
  using assms
  by (simp add: handshake_def register_agent_def send_def dict_set_absent Let_def)

lemma register_accepted_lookup:
  "\<not> dict_has (KStr A) d \<Longrightarrow> map_of (d @ [(KStr A, websocket)]) (KStr A) = Some websocket"
  by (simp add: dict_has_def map_add_def)

subsection \<open>Rejected first frames\<close>

text \<open>
  What the coroutine does with a first frame it does not accept, on an open connection.
  In each case it sends one \<^verbatim>\<open>SERVER_ERROR\<close> and ends. When the frame names a
  non-empty \<^verbatim>\<open>agent_id\<close>, the local variable holds it by then, and the
  \<^verbatim>\<open>finally\<close> block deletes that key from the dictionary.
\<close>

lemma register_rejected:
  assumes "websocket \<notin> closed_conns w"
    and "get kvs ''type'' = JStr ''AGENT_REGISTER''"
  shows "\<not> truthy (get kvs ''agent_id'') \<Longrightarrow>
         handle_step SHARED_SECRET w websocket Authenticating (Recv raw (Some (JObj kvs)))
           = (w\<lparr>sent := sent w @ [(websocket, ServerError MissingAgentId)],
                 closed_conns := insert websocket (closed_conns w)\<rparr>, Closed)"
    and "truthy (get kvs ''agent_id'') \<Longrightarrow> get kvs ''auth_token'' \<noteq> JStr SHARED_SECRET \<Longrightarrow>
         key_of (get kvs ''agent_id'') = Some k \<Longrightarrow>
         handle_step SHARED_SECRET w websocket Authenticating (Recv raw (Some (JObj kvs)))
           = (w\<lparr>CONNECTED_AGENTS := dict_del k (CONNECTED_AGENTS w),
                 sent := sent w @ [(websocket, ServerError InvalidToken)],
                 closed_conns := insert websocket (closed_conns w)\<rparr>, Closed)"
    and "truthy (get kvs ''agent_id'') \<Longrightarrow> get kvs ''auth_token'' = JStr SHARED_SECRET \<Longrightarrow>
         key_of (get kvs ''agent_id'') = Some k \<Longrightarrow> dict_has k (CONNECTED_AGENTS w) \<Longrightarrow>
         handle_step SHARED_SECRET w websocket Authenticating (Recv raw (Some (JObj kvs)))
           = (w\<lparr>CONNECTED_AGENTS := dict_del k (CONNECTED_AGENTS w),
                 sent := sent w @ [(websocket, ServerError (IdInUse (get kvs ''agent_id'')))],
                 closed_conns := insert websocket (closed_conns w)\<rparr>, Closed)"
  using assms
  by (simp_all add: handshake_def and_return_def send_def finally_block_def
        unregister_agent_def close_connection_def dict_del_absent Let_def)

lemma first_frame_not_register:
  assumes "websocket \<notin> closed_conns w"
    and "get kvs ''type'' \<noteq> JStr ''AGENT_REGISTER''"
  shows "handle_step SHARED_SECRET w websocket Authenticating (Recv raw (Some (JObj kvs)))
           = (w\<lparr>sent := sent w @ [(websocket, ServerError NotRegisterFirst)],
                 closed_conns := insert websocket (closed_conns w)\<rparr>, Closed)"
  using assms
  by (simp add: handshake_def and_return_def send_def finally_block_def close_connection_def)

subsection \<open>The states the server reaches\<close>

lemma handshake_closed:
  "closed_conns (fst (handshake SHARED_SECRET w websocket ev)) = closed_conns w"
  by (auto simp: handshake_def and_return_def register_agent_def send_def
        Let_def split: event.split option.split json.split if_splits)

lemma handshake_proceed:
  assumes "handshake SHARED_SECRET w websocket ev = (w', a, Proceed)"
  shows "truthy a \<and> websocket \<notin> closed_conns w
       \<and> (\<exists>k. key_of a = Some k \<and> \<not> dict_has k (CONNECTED_AGENTS w)
              \<and> CONNECTED_AGENTS w' = CONNECTED_AGENTS w @ [(k, websocket)])"
  using assms
  by (auto simp: handshake_def and_return_def register_agent_def send_def dict_set_absent
        Let_def split: event.splits option.splits json.splits if_splits)

lemma finally_block_closed: "closed_conns (finally_block w a) = closed_conns w"
  by (simp add: finally_block_def unregister_agent_def split: option.split)

lemma finally_block_subset:
  "set (CONNECTED_AGENTS (finally_block w a)) \<subseteq> set (CONNECTED_AGENTS w)"
  by (auto simp: finally_block_def unregister_agent_def dict_del_def split: option.split)

lemma finally_block_removes:
  "truthy a \<Longrightarrow> key_of a = Some k \<Longrightarrow>
   k \<notin> fst ` set (CONNECTED_AGENTS (finally_block w a))"
  using dict_has_del [of k "CONNECTED_AGENTS w"]
  by (auto simp: finally_block_def unregister_agent_def dict_has_iff)

lemma handshake_abort:
  assumes "handshake SHARED_SECRET w websocket ev = (w', a, f)" and "f \<noteq> Proceed"
  shows "set (CONNECTED_AGENTS (finally_block w' a)) \<subseteq> set (CONNECTED_AGENTS w)"
  using assms
  by (auto simp: handshake_def and_return_def register_agent_def send_def dict_set_absent
        finally_block_def unregister_agent_def dict_del_def dict_has_iff
        Let_def split: event.splits option.splits json.splits if_splits)

lemma route_closed:
  "closed_conns (fst (route [] w websocket message_str dec)) = closed_conns w"
  by (simp add: route_def send_def broadcast_sent Let_def split: option.split json.split)

lemma loop_iteration_closed:
  "closed_conns (fst (loop_iteration [] w websocket message_str dec)) = closed_conns w"
proof -
  obtain w' r where rt: "route [] w websocket message_str dec = (w', r)"
    by (cases "route [] w websocket message_str dec")
  have "closed_conns w' = closed_conns w"
    using route_closed [of w websocket message_str dec] by (simp add: rt)
  then show ?thesis
    by (simp add: loop_iteration_def rt send_def split: option.split exn.split)
qed

lemma inv_shrink:
  assumes inv: "relay_inv (w, ss)"
    and sub: "set (CONNECTED_AGENTS w') \<subseteq> set (CONNECTED_AGENTS w)"
    and dist: "distinct (map fst (CONNECTED_AGENTS w'))"
    and cl: "closed_conns w' = insert c (closed_conns w)"
    and noc: "\<forall>p \<in> set (CONNECTED_AGENTS w'). snd p \<noteq> c"
  shows "relay_inv (w', ss(c := Closed))"
  unfolding relay_inv_def
proof (intro conjI ballI)
  show "distinct (map fst (CONNECTED_AGENTS (fst (w', ss(c := Closed)))))"
    using dist by simp
next
  fix p assume p: "p \<in> set (CONNECTED_AGENTS (fst (w', ss(c := Closed))))"
  then have old: "p \<in> set (CONNECTED_AGENTS w)" and ne: "snd p \<noteq> c"
    using sub noc by auto
  from inv old have "snd p \<notin> closed_conns w"
    and "\<exists>a. ss (snd p) = Registered a \<and> truthy a \<and> key_of a = Some (fst p)"
    by (auto simp: relay_inv_def)
  then show "snd p \<notin> closed_conns (fst (w', ss(c := Closed)))"
    and "\<exists>a. snd (w', ss(c := Closed)) (snd p) = Registered a \<and> truthy a
             \<and> key_of a = Some (fst p)"
    using ne cl by auto
qed

lemma finally_block_drops_own:
  assumes inv: "relay_inv (w, ss)" and s: "ss c = Registered a"
  shows "\<forall>p \<in> set (CONNECTED_AGENTS (finally_block w a)). snd p \<noteq> c"
proof
  fix p assume p: "p \<in> set (CONNECTED_AGENTS (finally_block w a))"
  show "snd p \<noteq> c"
  proof
    assume eq: "snd p = c"
    have "p \<in> set (CONNECTED_AGENTS w)"
      using p finally_block_subset by blast
    with inv eq s have "truthy a" and "key_of a = Some (fst p)"
      by (auto simp: relay_inv_def)
    then have "fst p \<notin> fst ` set (CONNECTED_AGENTS (finally_block w a))"
      by (rule finally_block_removes)
    with p show False by blast
  qed
qed

lemma handle_step_inv:
  assumes inv: "relay_inv (w, ss)"
    and step: "handle_step SHARED_SECRET w c (ss c) ev = (w', s')"
  shows "relay_inv (w', ss(c := s'))"
proof -
  have dist: "distinct (map fst (CONNECTED_AGENTS w'))"
    using handle_step_distinct [of w SHARED_SECRET c "ss c" ev] inv step
    by (simp add: relay_inv_def)
  have others: "\<forall>p \<in> set (CONNECTED_AGENTS w). (\<exists>a. ss (snd p) = Registered a)"
    using inv by (auto simp: relay_inv_def)
  show ?thesis
  proof (cases "ss c")
    case Authenticating
    then have noc: "\<forall>p \<in> set (CONNECTED_AGENTS w). snd p \<noteq> c"
      using others by auto
    obtain w1 a f where h: "handshake SHARED_SECRET w c ev = (w1, a, f)"
      by (cases "handshake SHARED_SECRET w c ev")
    have cl1: "closed_conns w1 = closed_conns w"
      using handshake_closed [of SHARED_SECRET w c ev] by (simp add: h)
    show ?thesis
    proof (cases "f = Proceed")
      case True
      then have res: "w' = w1" "s' = Registered a"
        using step Authenticating h by auto
      obtain k where a: "truthy a" "c \<notin> closed_conns w" "key_of a = Some k"
        and reg: "CONNECTED_AGENTS w1 = CONNECTED_AGENTS w @ [(k, c)]"
        using handshake_proceed [of SHARED_SECRET w c ev w1 a] h True by auto
      show ?thesis
        unfolding relay_inv_def
      proof (intro conjI ballI)
        show "distinct (map fst (CONNECTED_AGENTS (fst (w', ss(c := s')))))"
          using dist by simp
      next
        fix p assume "p \<in> set (CONNECTED_AGENTS (fst (w', ss(c := s'))))"
        then consider "p = (k, c)" | "p \<in> set (CONNECTED_AGENTS w)"
          using res reg by auto
        then have "snd p \<notin> closed_conns w \<and>
              (\<exists>a. (ss(c := s')) (snd p) = Registered a \<and> truthy a \<and> key_of a = Some (fst p))"
        proof cases
          case 1
          then show ?thesis using a res by simp
        next
          case 2
          then have "snd p \<noteq> c" using noc by blast
          then show ?thesis using inv 2 by (auto simp: relay_inv_def)
        qed
        then show "snd p \<notin> closed_conns (fst (w', ss(c := s')))"
          and "\<exists>a. snd (w', ss(c := s')) (snd p) = Registered a \<and> truthy a
                 \<and> key_of a = Some (fst p)"
          using res cl1 by auto
      qed
    next
      case False
      then have res: "w' = close_connection (finally_block w1 a) c" "s' = Closed"
        using step Authenticating h by (auto split: flow.splits)
      have sub: "set (CONNECTED_AGENTS w') \<subseteq> set (CONNECTED_AGENTS w)"
        using handshake_abort [OF h False] res by (simp add: close_connection_def)
      have cl: "closed_conns w' = insert c (closed_conns w)"
        using res cl1 by (simp add: close_connection_def finally_block_closed)
      show ?thesis
        using inv_shrink [OF inv sub dist cl] noc sub res by auto
    qed
  next
    case (Registered a)
    have closing: "relay_inv (close_connection (finally_block w1 a) c, ss(c := Closed))"
      if reg1: "CONNECTED_AGENTS w1 = CONNECTED_AGENTS w"
        and cl1: "closed_conns w1 = closed_conns w" for w1
    proof -
      have inv1: "relay_inv (w1, ss)"
        using inv reg1 cl1 by (simp add: relay_inv_def)
      have sub: "set (CONNECTED_AGENTS (close_connection (finally_block w1 a) c))
                   \<subseteq> set (CONNECTED_AGENTS w1)"
        using finally_block_subset [of w1 a] by (simp add: close_connection_def)
      have d: "distinct (map fst (CONNECTED_AGENTS (close_connection (finally_block w1 a) c)))"
        using finally_block_distinct [of w1 a] inv1
        by (simp add: close_connection_def relay_inv_def)
      have cl: "closed_conns (close_connection (finally_block w1 a) c)
                  = insert c (closed_conns w1)"
        by (simp add: close_connection_def finally_block_closed)
      have noc: "\<forall>p \<in> set (CONNECTED_AGENTS (close_connection (finally_block w1 a) c)).
                   snd p \<noteq> c"
        using finally_block_drops_own [OF inv1 Registered]
        by (simp add: close_connection_def)
      show ?thesis
        by (rule inv_shrink [OF inv1 sub d cl noc])
    qed
    show ?thesis
    proof (cases ev)
      case (Recv message_str dec)
      obtain w1 e where l: "loop_iteration [] w c message_str dec = (w1, e)"
        by (cases "loop_iteration [] w c message_str dec")
      have reg1: "CONNECTED_AGENTS w1 = CONNECTED_AGENTS w"
        using loop_iteration_registry [of w c message_str dec] by (simp add: l)
      have cl1: "closed_conns w1 = closed_conns w"
        using loop_iteration_closed [of w c message_str dec] by (simp add: l)
      show ?thesis
      proof (cases e)
        case None
        then have "w' = w1" "s' = Registered a"
          using step Registered Recv l by auto
        moreover have "ss(c := Registered a) = ss"
          using Registered by auto
        ultimately show ?thesis
          using inv reg1 cl1 by (simp add: relay_inv_def)
      next
        case (Some x)
        then have "w' = close_connection (finally_block w1 a) c" "s' = Closed"
          using step Registered Recv l by auto
        then show ?thesis using closing [OF reg1 cl1] by simp
      qed
    next
      case Disconnect
      then have "w' = close_connection (finally_block w a) c" "s' = Closed"
        using step Registered by auto
      then show ?thesis using closing [of w] by simp
    qed
  next
    case Closed
    then have "w' = w" "s' = Closed"
      using step by auto
    moreover have "ss(c := Closed) = ss"
      using Closed by auto
    ultimately show ?thesis
      using inv by simp
  qed
qed

lemma relay_step_inv: "relay_inv r \<Longrightarrow> relay_inv (relay_step SHARED_SECRET r ce)"
proof -
  assume inv: "relay_inv r"
  obtain w ss where r: "r = (w, ss)" by (cases r)
  obtain c ev where ce: "ce = (c, ev)" by (cases ce)
  obtain w' s' where hs: "handle_step SHARED_SECRET w c (ss c) ev = (w', s')"
    by (cases "handle_step SHARED_SECRET w c (ss c) ev")
  have "relay_inv (w', ss(c := s'))"
    using handle_step_inv [of w ss SHARED_SECRET c ev w' s'] inv hs r by simp
  then show ?thesis
    by (simp add: relay_step_def r ce hs)
qed

lemma relay_steps_inv:
  "relay_inv r \<Longrightarrow> relay_inv (foldl (relay_step SHARED_SECRET) r evs)"
  by (induction evs arbitrary: r) (simp_all add: relay_step_inv)

lemma run_inv: "relay_inv (run SHARED_SECRET evs)"
  unfolding run_def by (rule relay_steps_inv) (simp add: relay_inv_def start_def)

lemma run_registered_open:
  "(k, c) \<in> set (CONNECTED_AGENTS (fst (run SHARED_SECRET evs))) \<Longrightarrow>
   c \<notin> closed_conns (fst (run SHARED_SECRET evs))"
  using run_inv [of SHARED_SECRET evs] by (auto simp: relay_inv_def)

lemma run_connections_distinct:
  "distinct (map snd (CONNECTED_AGENTS (fst (run SHARED_SECRET evs))))"
proof -
  let ?reg = "CONNECTED_AGENTS (fst (run SHARED_SECRET evs))"
  have inv: "relay_inv (run SHARED_SECRET evs)" by (rule run_inv)
  have "inj_on snd (set ?reg)"
  proof (rule inj_onI)
    fix p q assume p: "p \<in> set ?reg" and q: "q \<in> set ?reg" and eq: "snd p = snd q"
    from inv p obtain a where
      a: "snd (run SHARED_SECRET evs) (snd p) = Registered a" "key_of a = Some (fst p)"
      unfolding relay_inv_def by blast
    from inv q obtain b where
      b: "snd (run SHARED_SECRET evs) (snd q) = Registered b" "key_of b = Some (fst q)"
      unfolding relay_inv_def by blast
    from a b eq have "fst p = fst q"
      by simp
    with eq show "p = q" by (simp add: prod_eq_iff)
  qed
  moreover have "distinct ?reg"
    using inv by (auto simp: relay_inv_def distinct_map)
  ultimately show ?thesis
    by (simp add: distinct_map)
qed

text \<open>
  In the broadcast loop, the connection registered under the sender's key gets nothing
  when no other key leads to it.
\<close>

lemma not_to_sender:
  assumes "map_of reg k = Some websocket" and "distinct (map snd reg)"
  shows "websocket \<notin> fst ` set (map (\<lambda>p. (snd p, m))
           (filter (\<lambda>p. s \<noteq> Some (fst p) \<and> snd p \<notin> cl) reg))
         \<or> s \<noteq> Some k"
proof (cases "s = Some k")
  case False
  then show ?thesis by simp
next
  case True
  have mem: "(k, websocket) \<in> set reg"
    using assms(1) by (rule map_of_SomeD)
  have inj: "inj_on snd (set reg)"
    using assms(2) by (simp add: distinct_map)
  have "\<And>p. p \<in> set reg \<Longrightarrow> snd p = websocket \<Longrightarrow> fst p = k"
  proof -
    fix p assume "p \<in> set reg" and "snd p = websocket"
    then have "p = (k, websocket)"
      using inj_onD [OF inj, of p "(k, websocket)"] mem by simp
    then show "fst p = k" by simp
  qed
  then show ?thesis
    using True by (auto simp: image_iff)
qed

text \<open>
  A \<^verbatim>\<open>BROADCAST_MESSAGE\<close> handled while no other coroutine changes the dictionary:
  with non-empty \<^verbatim>\<open>sender_id\<close> and \<^verbatim>\<open>content\<close>, the text of the frame is put
  unchanged, once each and in the order of the dictionary, on the connection of every
  entry whose key is not \<^verbatim>\<open>sender_id\<close> and whose connection takes it, and an entry
  whose connection is closed is passed over; otherwise the sender is sent one
  \<^verbatim>\<open>SERVER_ERROR\<close>.
\<close>

lemma broadcast_undisturbed:
  assumes "get kvs ''type'' = JStr ''BROADCAST_MESSAGE''"
  shows "(truthy (get kvs ''sender_id'') \<and> truthy (get kvs ''content'') \<longrightarrow>
          (\<exists>deliveries.
             handle_step SHARED_SECRET w websocket (Registered agent_id)
                 (Recv message_str (Some (JObj kvs)))
               = (w\<lparr>sent := sent w @ deliveries\<rparr>, Registered agent_id)
           \<and> deliveries = map (\<lambda>p. (snd p, Wire message_str))
                 (filter (\<lambda>p. key_of (get kvs ''sender_id'') \<noteq> Some (fst p)
                              \<and> snd p \<notin> closed_conns w) (CONNECTED_AGENTS w))
           \<and> (\<forall>k. key_of (get kvs ''sender_id'') = Some k
                     \<and> map_of (CONNECTED_AGENTS w) k = Some websocket
                     \<and> distinct (map snd (CONNECTED_AGENTS w))
                   \<longrightarrow> websocket \<notin> fst ` set deliveries)))
       \<and> (\<not> (truthy (get kvs ''sender_id'') \<and> truthy (get kvs ''content''))
            \<and> websocket \<notin> closed_conns w \<longrightarrow>
          handle_step SHARED_SECRET w websocket (Registered agent_id)
              (Recv message_str (Some (JObj kvs)))
            = (w\<lparr>sent := sent w @ [(websocket, ServerError IncompleteBroadcast)]\<rparr>,
               Registered agent_id))"
proof (intro conjI impI)
  assume full: "truthy (get kvs ''sender_id'') \<and> truthy (get kvs ''content'')"
  let ?d = "map (\<lambda>p. (snd p, Wire message_str))
              (filter (\<lambda>p. key_of (get kvs ''sender_id'') \<noteq> Some (fst p)
                           \<and> snd p \<notin> closed_conns w) (CONNECTED_AGENTS w))"
  have step: "handle_step SHARED_SECRET w websocket (Registered agent_id)
                 (Recv message_str (Some (JObj kvs)))
               = (w\<lparr>sent := sent w @ ?d\<rparr>, Registered agent_id)"
    using assms full by (simp add: loop_iteration_def route_def broadcast_sent)
  have own: "\<forall>k. key_of (get kvs ''sender_id'') = Some k
                     \<and> map_of (CONNECTED_AGENTS w) k = Some websocket
                     \<and> distinct (map snd (CONNECTED_AGENTS w))
                   \<longrightarrow> websocket \<notin> fst ` set ?d"
    using not_to_sender [where reg = "CONNECTED_AGENTS w" and websocket = websocket
        and s = "key_of (get kvs ''sender_id'')" and m = "Wire message_str"
        and cl = "closed_conns w"]
    by blast
  show "\<exists>deliveries.
             handle_step SHARED_SECRET w websocket (Registered agent_id)
                 (Recv message_str (Some (JObj kvs)))
               = (w\<lparr>sent := sent w @ deliveries\<rparr>, Registered agent_id)
           \<and> deliveries = ?d
           \<and> (\<forall>k. key_of (get kvs ''sender_id'') = Some k
                     \<and> map_of (CONNECTED_AGENTS w) k = Some websocket
                     \<and> distinct (map snd (CONNECTED_AGENTS w))
                   \<longrightarrow> websocket \<notin> fst ` set deliveries)"
    using step own by blast
next
  assume "\<not> (truthy (get kvs ''sender_id'') \<and> truthy (get kvs ''content''))
            \<and> websocket \<notin> closed_conns w"
  then show "handle_step SHARED_SECRET w websocket (Registered agent_id)
              (Recv message_str (Some (JObj kvs)))
            = (w\<lparr>sent := sent w @ [(websocket, ServerError IncompleteBroadcast)]\<rparr>,
               Registered agent_id)"
    using assms by (auto simp: loop_iteration_def route_def send_def)
qed

text \<open>
  The schedule is read by the broadcast loop only: for every other frame, for the first
  frame and for the end of the connection, \<open>handle_frame\<close> does what \<open>handle_step\<close>
  does, whatever the other coroutines do to the dictionary during the sends.
\<close>

lemma route_schedule:
  assumes "\<forall>kvs. dec = Some (JObj kvs) \<longrightarrow> get kvs ''type'' \<noteq> JStr ''BROADCAST_MESSAGE''"
  shows "route sched w websocket message_str dec = route [] w websocket message_str dec"
  using assms by (auto simp: route_def Let_def split: option.split json.split)

lemma handle_frame_schedule:
  assumes "\<forall>message_str kvs. ev = Recv message_str (Some (JObj kvs))
             \<longrightarrow> get kvs ''type'' \<noteq> JStr ''BROADCAST_MESSAGE''"
  shows "handle_frame SHARED_SECRET sched w websocket s ev
           = handle_step SHARED_SECRET w websocket s ev"
proof (cases s)
  case (Registered a)
  show ?thesis
  proof (cases ev)
    case (Recv message_str dec)
    have "route sched w websocket message_str dec = route [] w websocket message_str dec"
      using assms Recv by (intro route_schedule) simp
    then show ?thesis
      by (simp add: Registered Recv loop_iteration_def)
  qed (simp add: Registered)
qed simp_all

section \<open>The claims\<close>

subsection \<open>Unregistering\<close>

text \<open>
  Claim C8. For every agent identifier (any hashable value, a string in particular) and
  every state of the dictionary, \<^verbatim>\<open>unregister_agent\<close> raises nothing, a second call
  right after the first one changes nothing any more, and a call for an identifier that
  is not a key leaves the state as it is.
\<close>

theorem unregister_agent_idempotent:
  assumes "key_of agent_id = Some k"
  shows "snd (unregister_agent w agent_id) = None
       \<and> unregister_agent (fst (unregister_agent w agent_id)) agent_id
           = (fst (unregister_agent w agent_id), None)
       \<and> (\<not> dict_has k (CONNECTED_AGENTS w) \<longrightarrow> unregister_agent w agent_id = (w, None))"
  using assms by (simp add: unregister_agent_def dict_has_del)

theorem unregister_agent_idempotent_witness:
  "key_of (JStr ''bob'') = Some (KStr ''bob'')
   \<and> \<not> dict_has (KStr ''bob'') (CONNECTED_AGENTS \<lparr>CONNECTED_AGENTS = [(KStr ''alice'', 1)], sent = [], closed_conns = {}\<rparr>)
   \<and> unregister_agent \<lparr>CONNECTED_AGENTS = [(KStr ''alice'', 1)], sent = [], closed_conns = {}\<rparr>
        (JStr ''bob'')
       = (\<lparr>CONNECTED_AGENTS = [(KStr ''alice'', 1)], sent = [], closed_conns = {}\<rparr>, None)
   \<and> unregister_agent
        (fst (unregister_agent
           \<lparr>CONNECTED_AGENTS = [(KStr ''alice'', 1), (KStr ''bob'', 2)], sent = [],
             closed_conns = {}\<rparr> (JStr ''bob'')))
        (JStr ''bob'')
       = (\<lparr>CONNECTED_AGENTS = [(KStr ''alice'', 1)], sent = [], closed_conns = {}\<rparr>, None)"
  using unregister_agent_idempotent [of "JStr ''bob''" "KStr ''bob''"
      "\<lparr>CONNECTED_AGENTS = [(KStr ''alice'', 1)], sent = [], closed_conns = {}\<rparr>"]
    unregister_agent_idempotent [of "JStr ''bob''" "KStr ''bob''"
      "\<lparr>CONNECTED_AGENTS = [(KStr ''alice'', 1), (KStr ''bob'', 2)], sent = [],
         closed_conns = {}\<rparr>"]
  by (simp add: unregister_agent_def dict_has_def dict_del_def)

subsection \<open>The directory request\<close>

text \<open>
  Claim C6. A frame of type \<^verbatim>\<open>LIST_AGENTS_REQUEST\<close> from a connection in the message
  loop is answered on that connection by one \<^verbatim>\<open>LIST_AGENTS_RESPONSE\<close>, and nothing
  else happens: its \<^verbatim>\<open>agents\<close> are the keys of the dictionary at that moment, in
  which every registered identifier occurs once and no other value occurs, and its
  \<^verbatim>\<open>requester_id\<close> is the \<^verbatim>\<open>sender_id\<close> of the request. (The keys of a dictionary
  are pairwise different: \<open>run_distinct\<close>.)
\<close>

theorem list_agents_response:
  assumes "websocket \<notin> closed_conns w"
    and "get kvs ''type'' = JStr ''LIST_AGENTS_REQUEST''"
    and "distinct (map fst (CONNECTED_AGENTS w))"
  shows "handle_step SHARED_SECRET w websocket (Registered agent_id)
             (Recv message_str (Some (JObj kvs)))
           = (w\<lparr>sent := sent w @ [(websocket,
                  ListResponse (map fst (CONNECTED_AGENTS w)) (get kvs ''sender_id''))]\<rparr>,
              Registered agent_id)
       \<and> (\<forall>k. count_list (map fst (CONNECTED_AGENTS w)) k
                 = (if dict_has k (CONNECTED_AGENTS w) then 1 else 0))"
  using assms by (simp add: loop_iteration_def route_def send_def keys_once)

theorem list_agents_response_witness:
  "2 \<notin> closed_conns \<lparr>CONNECTED_AGENTS = [(KStr ''alice'', 1), (KStr ''bob'', 2)], sent = [],
          closed_conns = {}\<rparr>
   \<and> get [(''type'', JStr ''LIST_AGENTS_REQUEST''), (''sender_id'', JStr ''bob'')] ''type''
       = JStr ''LIST_AGENTS_REQUEST''
   \<and> distinct (map fst [(KStr ''alice'', 1::nat), (KStr ''bob'', 2)])
   \<and> handle_step ''k3y''
        \<lparr>CONNECTED_AGENTS = [(KStr ''alice'', 1), (KStr ''bob'', 2)], sent = [],
          closed_conns = {}\<rparr> 2 (Registered (JStr ''bob''))
        (Recv ''{\"type\": \"LIST_AGENTS_REQUEST\", \"sender_id\": \"bob\"}''
           (Some (JObj [(''type'', JStr ''LIST_AGENTS_REQUEST''), (''sender_id'', JStr ''bob'')])))
       = (\<lparr>CONNECTED_AGENTS = [(KStr ''alice'', 1), (KStr ''bob'', 2)],
           sent = [(2, ListResponse [KStr ''alice'', KStr ''bob''] (JStr ''bob''))],
           closed_conns = {}\<rparr>, Registered (JStr ''bob''))"
  using list_agents_response [where websocket = 2
      and w = "\<lparr>CONNECTED_AGENTS = [(KStr ''alice'', 1), (KStr ''bob'', 2)], sent = [],
                 closed_conns = {}\<rparr>"
      and kvs = "[(''type'', JStr ''LIST_AGENTS_REQUEST''), (''sender_id'', JStr ''bob'')]"
      and SHARED_SECRET = "''k3y''" and agent_id = "JStr ''bob''"
      and message_str = "''{\"type\": \"LIST_AGENTS_REQUEST\", \"sender_id\": \"bob\"}''"]
  by (simp add: get_def)

subsection \<open>Frames the message loop does not understand\<close>

text \<open>
  Claim C7. A frame that is not JSON, or a JSON object whose \<^verbatim>\<open>type\<close> is none of
  the three the loop knows, received from a connection in the message loop: the sender is
  sent one \<^verbatim>\<open>SERVER_ERROR\<close> and nothing else is sent, the coroutine stays in the loop
  with the same identifier, and the dictionary is as before.
\<close>

theorem registered_protocol_error:
  assumes "websocket \<notin> closed_conns w"
  shows "handle_step SHARED_SECRET w websocket (Registered agent_id) (Recv message_str None)
           = (w\<lparr>sent := sent w @ [(websocket, ServerError InvalidJSON)]\<rparr>, Registered agent_id)
       \<and> (get kvs ''type'' \<notin> {JStr ''AGENT_MESSAGE'', JStr ''BROADCAST_MESSAGE'',
                                 JStr ''LIST_AGENTS_REQUEST''} \<longrightarrow>
          handle_step SHARED_SECRET w websocket (Registered agent_id)
              (Recv message_str (Some (JObj kvs)))
           = (w\<lparr>sent := sent w @ [(websocket, ServerError (UnknownType (get kvs ''type'')))]\<rparr>,
              Registered agent_id))"
  using assms by (simp add: loop_iteration_def route_def send_def)

theorem registered_protocol_error_witness:
  "1 \<notin> closed_conns \<lparr>CONNECTED_AGENTS = [(KStr ''alice'', 1)], sent = [], closed_conns = {}\<rparr>
   \<and> get [(''type'', JStr ''PING''), (''sender_id'', JStr ''alice'')] ''type''
        \<notin> {JStr ''AGENT_MESSAGE'', JStr ''BROADCAST_MESSAGE'', JStr ''LIST_AGENTS_REQUEST''}
   \<and> handle_step ''k3y''
        \<lparr>CONNECTED_AGENTS = [(KStr ''alice'', 1)], sent = [], closed_conns = {}\<rparr> 1
        (Registered (JStr ''alice'')) (Recv ''{type: PING'' None)
       = (\<lparr>CONNECTED_AGENTS = [(KStr ''alice'', 1)],
           sent = [(1, ServerError InvalidJSON)], closed_conns = {}\<rparr>,
          Registered (JStr ''alice''))
   \<and> handle_step ''k3y''
        \<lparr>CONNECTED_AGENTS = [(KStr ''alice'', 1)], sent = [], closed_conns = {}\<rparr> 1
        (Registered (JStr ''alice''))
        (Recv ''{type: PING''
           (Some (JObj [(''type'', JStr ''PING''), (''sender_id'', JStr ''alice'')])))
       = (\<lparr>CONNECTED_AGENTS = [(KStr ''alice'', 1)],
           sent = [(1, ServerError (UnknownType (JStr ''PING'')))], closed_conns = {}\<rparr>,
          Registered (JStr ''alice''))"
  using registered_protocol_error [where websocket = 1
      and w = "\<lparr>CONNECTED_AGENTS = [(KStr ''alice'', 1)], sent = [], closed_conns = {}\<rparr>"
      and kvs = "[(''type'', JStr ''PING''), (''sender_id'', JStr ''alice'')]"
      and SHARED_SECRET = "''k3y''" and agent_id = "JStr ''alice''"
      and message_str = "''{type: PING''"]
  by (simp add: get_def)

text \<open>
  Claim C10. A frame of type \<^verbatim>\<open>AGENT_REGISTER\<close> that arrives in the message loop is
  an unknown message type like any other: one \<^verbatim>\<open>SERVER_ERROR\<close> goes to the sender,
  the coroutine stays in the loop with the identifier it had, and the dictionary is as
  before, whatever \<^verbatim>\<open>agent_id\<close> and \<^verbatim>\<open>auth_token\<close> the frame carries.
\<close>

theorem register_in_loop_is_unknown_type:
  assumes "websocket \<notin> closed_conns w"
    and "get kvs ''type'' = JStr ''AGENT_REGISTER''"
  shows "handle_step SHARED_SECRET w websocket (Registered agent_id)
             (Recv message_str (Some (JObj kvs)))
           = (w\<lparr>sent := sent w
                 @ [(websocket, ServerError (UnknownType (JStr ''AGENT_REGISTER'')))]\<rparr>,
              Registered agent_id)"
  using assms by (simp add: loop_iteration_def route_def send_def)

theorem register_in_loop_is_unknown_type_witness:
  "1 \<notin> closed_conns \<lparr>CONNECTED_AGENTS = [(KStr ''alice'', 1)], sent = [], closed_conns = {}\<rparr>
   \<and> get [(''type'', JStr ''AGENT_REGISTER''), (''agent_id'', JStr ''mallory''),
           (''auth_token'', JStr ''k3y'')] ''type'' = JStr ''AGENT_REGISTER''
   \<and> handle_step ''k3y''
        \<lparr>CONNECTED_AGENTS = [(KStr ''alice'', 1)], sent = [], closed_conns = {}\<rparr> 1
        (Registered (JStr ''alice''))
        (Recv ''register mallory''
           (Some (JObj [(''type'', JStr ''AGENT_REGISTER''), (''agent_id'', JStr ''mallory''),
                        (''auth_token'', JStr ''k3y'')])))
       = (\<lparr>CONNECTED_AGENTS = [(KStr ''alice'', 1)],
           sent = [(1, ServerError (UnknownType (JStr ''AGENT_REGISTER'')))],
           closed_conns = {}\<rparr>,
          Registered (JStr ''alice''))"
  using register_in_loop_is_unknown_type [where websocket = 1
      and w = "\<lparr>CONNECTED_AGENTS = [(KStr ''alice'', 1)], sent = [], closed_conns = {}\<rparr>"
      and kvs = "[(''type'', JStr ''AGENT_REGISTER''), (''agent_id'', JStr ''mallory''),
                  (''auth_token'', JStr ''k3y'')]"
      and SHARED_SECRET = "''k3y''" and agent_id = "JStr ''alice''"
      and message_str = "''register mallory''"]
  by (simp add: get_def)

subsection \<open>Direct messages\<close>

text \<open>
  Claim C9. An agent registered as \<open>A\<close> sends an \<^verbatim>\<open>AGENT_MESSAGE\<close> with itself as
  sender and receiver and a non-empty content: the text of the frame is put, unchanged,
  on the agent's own connection, and no error is sent.
\<close>

theorem direct_to_self_delivered:
  assumes "websocket \<notin> closed_conns w"
    and "map_of (CONNECTED_AGENTS w) (KStr A) = Some websocket"
    and "A \<noteq> []"
    and "get kvs ''type'' = JStr ''AGENT_MESSAGE''"
    and "get kvs ''sender_id'' = JStr A"
    and "get kvs ''receiver_id'' = JStr A"
    and "truthy (get kvs ''content'')"
  shows "handle_step SHARED_SECRET w websocket (Registered (JStr A))
             (Recv message_str (Some (JObj kvs)))
           = (w\<lparr>sent := sent w @ [(websocket, Wire message_str)]\<rparr>, Registered (JStr A))"
  using assms by (simp add: loop_iteration_def route_def send_def)

theorem direct_to_self_delivered_witness:
  "1 \<notin> closed_conns \<lparr>CONNECTED_AGENTS = [(KStr ''alice'', 1)], sent = [], closed_conns = {}\<rparr>
   \<and> map_of [(KStr ''alice'', 1::nat)] (KStr ''alice'') = Some 1
   \<and> ''alice'' \<noteq> []
   \<and> truthy (get [(''type'', JStr ''AGENT_MESSAGE''), (''sender_id'', JStr ''alice''),
          (''receiver_id'', JStr ''alice''), (''content'', JStr ''note to self'')] ''content'')
   \<and> handle_step ''k3y''
        \<lparr>CONNECTED_AGENTS = [(KStr ''alice'', 1)], sent = [], closed_conns = {}\<rparr> 1
        (Registered (JStr ''alice''))
        (Recv ''alice to alice: note to self''
           (Some (JObj [(''type'', JStr ''AGENT_MESSAGE''), (''sender_id'', JStr ''alice''),
                        (''receiver_id'', JStr ''alice''), (''content'', JStr ''note to self'')])))
       = (\<lparr>CONNECTED_AGENTS = [(KStr ''alice'', 1)],
           sent = [(1, Wire ''alice to alice: note to self'')], closed_conns = {}\<rparr>,
          Registered (JStr ''alice''))"
  using direct_to_self_delivered [where websocket = 1
      and w = "\<lparr>CONNECTED_AGENTS = [(KStr ''alice'', 1)], sent = [], closed_conns = {}\<rparr>"
      and kvs = "[(''type'', JStr ''AGENT_MESSAGE''), (''sender_id'', JStr ''alice''),
                  (''receiver_id'', JStr ''alice''), (''content'', JStr ''note to self'')]"
      and SHARED_SECRET = "''k3y''" and A = "''alice''"
      and message_str = "''alice to alice: note to self''"]
  by (simp add: get_def)

text \<open>
  Claim C4. An \<^verbatim>\<open>AGENT_MESSAGE\<close> from a connection in the message loop (the frame is
  handled while the sender's connection is open).
  \<^item> If \<^verbatim>\<open>sender_id\<close>, \<^verbatim>\<open>receiver_id\<close> or \<^verbatim>\<open>content\<close> is missing or empty, the
    sender is sent one \<^verbatim>\<open>SERVER_ERROR\<close> and nothing is forwarded.
  \<^item> Otherwise, if \<^verbatim>\<open>receiver_id\<close> is a key of the dictionary and its connection is
    open (as the connection of every registered agent is, \<open>run_registered_open\<close>), the
    text of the frame is put unchanged on that connection and nothing is sent to the
    sender.
  \<^item> Otherwise, if \<^verbatim>\<open>receiver_id\<close> is not a key of the dictionary, no connection gets
    the frame and the sender is sent one \<^verbatim>\<open>SERVER_ERROR\<close>.
  In all three cases the coroutine stays in the loop and the dictionary is unchanged.
\<close>

theorem direct_routing:
  assumes "websocket \<notin> closed_conns w"
    and "get kvs ''type'' = JStr ''AGENT_MESSAGE''"
  shows "(\<not> (truthy (get kvs ''sender_id'') \<and> truthy (get kvs ''receiver_id'')
             \<and> truthy (get kvs ''content'')) \<longrightarrow>
          handle_step SHARED_SECRET w websocket (Registered agent_id)
              (Recv message_str (Some (JObj kvs)))
            = (w\<lparr>sent := sent w @ [(websocket, ServerError IncompleteDirect)]\<rparr>,
               Registered agent_id))
       \<and> (truthy (get kvs ''sender_id'') \<and> truthy (get kvs ''receiver_id'')
             \<and> truthy (get kvs ''content'') \<longrightarrow>
          (\<forall>k receiver_websocket.
             key_of (get kvs ''receiver_id'') = Some k
               \<and> map_of (CONNECTED_AGENTS w) k = Some receiver_websocket
               \<and> receiver_websocket \<notin> closed_conns w \<longrightarrow>
             handle_step SHARED_SECRET w websocket (Registered agent_id)
                 (Recv message_str (Some (JObj kvs)))
               = (w\<lparr>sent := sent w @ [(receiver_websocket, Wire message_str)]\<rparr>,
                  Registered agent_id))
          \<and> ((\<forall>k. key_of (get kvs ''receiver_id'') = Some k
                     \<longrightarrow> map_of (CONNECTED_AGENTS w) k = None) \<longrightarrow>
             handle_step SHARED_SECRET w websocket (Registered agent_id)
                 (Recv message_str (Some (JObj kvs)))
               = (w\<lparr>sent := sent w @ [(websocket, ServerError
                      (case key_of (get kvs ''receiver_id'') of
                         Some k \<Rightarrow> NotOnline (get kvs ''receiver_id'')
                       | None \<Rightarrow> InternalError))]\<rparr>,
                  Registered agent_id)))"
  using assms
  by (cases "key_of (get kvs ''receiver_id'')")
     (simp_all add: loop_iteration_def route_def send_def)

theorem direct_routing_witness:
  "1 \<notin> closed_conns \<lparr>CONNECTED_AGENTS = [(KStr ''alice'', 1), (KStr ''bob'', 2)], sent = [],
          closed_conns = {}\<rparr>
   \<and> key_of (JStr ''bob'') = Some (KStr ''bob'')
   \<and> map_of [(KStr ''alice'', 1::nat), (KStr ''bob'', 2)] (KStr ''bob'') = Some 2
   \<and> map_of [(KStr ''alice'', 1::nat), (KStr ''bob'', 2)] (KStr ''carol'') = None
   \<and> handle_step ''k3y''
        \<lparr>CONNECTED_AGENTS = [(KStr ''alice'', 1), (KStr ''bob'', 2)], sent = [],
          closed_conns = {}\<rparr> 1 (Registered (JStr ''alice''))
        (Recv ''alice to bob: hi''
           (Some (JObj [(''type'', JStr ''AGENT_MESSAGE''), (''sender_id'', JStr ''alice''),
                        (''receiver_id'', JStr ''bob''), (''content'', JStr ''hi'')])))
       = (\<lparr>CONNECTED_AGENTS = [(KStr ''alice'', 1), (KStr ''bob'', 2)],
           sent = [(2, Wire ''alice to bob: hi'')], closed_conns = {}\<rparr>,
          Registered (JStr ''alice''))
   \<and> handle_step ''k3y''
        \<lparr>CONNECTED_AGENTS = [(KStr ''alice'', 1), (KStr ''bob'', 2)], sent = [],
          closed_conns = {}\<rparr> 1 (Registered (JStr ''alice''))
        (Recv ''alice to carol: hi''
           (Some (JObj [(''type'', JStr ''AGENT_MESSAGE''), (''sender_id'', JStr ''alice''),
                        (''receiver_id'', JStr ''carol''), (''content'', JStr ''hi'')])))
       = (\<lparr>CONNECTED_AGENTS = [(KStr ''alice'', 1), (KStr ''bob'', 2)],
           sent = [(1, ServerError (NotOnline (JStr ''carol'')))], closed_conns = {}\<rparr>,
          Registered (JStr ''alice''))
   \<and> handle_step ''k3y''
        \<lparr>CONNECTED_AGENTS = [(KStr ''alice'', 1), (KStr ''bob'', 2)], sent = [],
          closed_conns = {}\<rparr> 1 (Registered (JStr ''alice''))
        (Recv ''alice to bob: ''
           (Some (JObj [(''type'', JStr ''AGENT_MESSAGE''), (''sender_id'', JStr ''alice''),
                        (''receiver_id'', JStr ''bob''), (''content'', JStr '''')])))
       = (\<lparr>CONNECTED_AGENTS = [(KStr ''alice'', 1), (KStr ''bob'', 2)],
           sent = [(1, ServerError IncompleteDirect)], closed_conns = {}\<rparr>,
          Registered (JStr ''alice''))"
  using direct_routing [where websocket = 1
      and w = "\<lparr>CONNECTED_AGENTS = [(KStr ''alice'', 1), (KStr ''bob'', 2)], sent = [],
                 closed_conns = {}\<rparr>"
      and kvs = "[(''type'', JStr ''AGENT_MESSAGE''), (''sender_id'', JStr ''alice''),
                  (''receiver_id'', JStr ''bob''), (''content'', JStr ''hi'')]"
      and SHARED_SECRET = "''k3y''" and agent_id = "JStr ''alice''"
      and message_str = "''alice to bob: hi''"]
    direct_routing [where websocket = 1
      and w = "\<lparr>CONNECTED_AGENTS = [(KStr ''alice'', 1), (KStr ''bob'', 2)], sent = [],
                 closed_conns = {}\<rparr>"
      and kvs = "[(''type'', JStr ''AGENT_MESSAGE''), (''sender_id'', JStr ''alice''),
                  (''receiver_id'', JStr ''carol''), (''content'', JStr ''hi'')]"
      and SHARED_SECRET = "''k3y''" and agent_id = "JStr ''alice''"
      and message_str = "''alice to carol: hi''"]
    direct_routing [where websocket = 1
      and w = "\<lparr>CONNECTED_AGENTS = [(KStr ''alice'', 1), (KStr ''bob'', 2)], sent = [],
                 closed_conns = {}\<rparr>"
      and kvs = "[(''type'', JStr ''AGENT_MESSAGE''), (''sender_id'', JStr ''alice''),
                  (''receiver_id'', JStr ''bob''), (''content'', JStr '''')]"
      and SHARED_SECRET = "''k3y''" and agent_id = "JStr ''alice''"
      and message_str = "''alice to bob: ''"]
  by (simp add: get_def)

subsection \<open>Where the server departs from its description\<close>

text \<open>
  Claim C1. Agent \<^verbatim>\<open>bob\<close> is registered on connection 1. Connection 2 sends a first
  frame that registers as \<^verbatim>\<open>bob\<close>, once with the right token (the identifier is in
  use) and once with a wrong one. Both times connection 2 is sent a \<^verbatim>\<open>SERVER_ERROR\<close>
  and its coroutine ends; but the \<^verbatim>\<open>finally\<close> block then unregisters \<^verbatim>\<open>bob\<close>, so
  the dictionary is empty afterwards although connection 1 is still open.
\<close>

theorem rejected_registration_removes_owner:
  "handle_step ''k3y''
     \<lparr>CONNECTED_AGENTS = [(KStr ''bob'', 1)], sent = [], closed_conns = {}\<rparr> 2 Authenticating
     (Recv ''register bob, token k3y''
        (Some (JObj [(''type'', JStr ''AGENT_REGISTER''), (''agent_id'', JStr ''bob''),
                     (''auth_token'', JStr ''k3y'')])))
    = (\<lparr>CONNECTED_AGENTS = [], sent = [(2, ServerError (IdInUse (JStr ''bob'')))],
        closed_conns = {2}\<rparr>, Closed)
   \<and> handle_step ''k3y''
     \<lparr>CONNECTED_AGENTS = [(KStr ''bob'', 1)], sent = [], closed_conns = {}\<rparr> 2 Authenticating
     (Recv ''register bob, token guess''
        (Some (JObj [(''type'', JStr ''AGENT_REGISTER''), (''agent_id'', JStr ''bob''),
                     (''auth_token'', JStr ''guess'')])))
    = (\<lparr>CONNECTED_AGENTS = [], sent = [(2, ServerError InvalidToken)],
        closed_conns = {2}\<rparr>, Closed)"
  by (simp add: handshake_def get_def and_return_def send_def finally_block_def
        unregister_agent_def dict_has_def dict_del_def close_connection_def Let_def)

text \<open>
  Claim C2. A first frame that is not JSON: \<^verbatim>\<open>json.loads\<close> raises, the handler of
  line 167 only logs, and the coroutine ends. Nothing is sent on the connection.
\<close>

theorem malformed_first_frame_unanswered:
  "handle_step SHARED_SECRET w websocket Authenticating (Recv auth_reg_message_str None)
     = (w\<lparr>closed_conns := insert websocket (closed_conns w)\<rparr>, Closed)
   \<and> handle_step ''k3y'' \<lparr>CONNECTED_AGENTS = [], sent = [], closed_conns = {}\<rparr> 1
        Authenticating (Recv ''{type: AGENT_REGISTER'' None)
     = (\<lparr>CONNECTED_AGENTS = [], sent = [], closed_conns = {1}\<rparr>, Closed)"
  by (simp add: handshake_def finally_block_def close_connection_def)

text \<open>
  Claim C3. From the start of the server: connection 1 registers as \<^verbatim>\<open>bob\<close> with the
  right token and is in the dictionary; connection 2 then registers as \<^verbatim>\<open>bob\<close> with a
  wrong token. It is sent the invalid-token error, and the dictionary loses the entry of
  connection 1, whose coroutine is still in the message loop.
\<close>

theorem invalid_token_changes_registry:
  "CONNECTED_AGENTS (fst (run ''k3y''
      [(1, Recv ''register bob, token k3y''
             (Some (JObj [(''type'', JStr ''AGENT_REGISTER''), (''agent_id'', JStr ''bob''),
                          (''auth_token'', JStr ''k3y'')])))]))
     = [(KStr ''bob'', 1)]
   \<and> fst (run ''k3y''
      [(1, Recv ''register bob, token k3y''
             (Some (JObj [(''type'', JStr ''AGENT_REGISTER''), (''agent_id'', JStr ''bob''),
                          (''auth_token'', JStr ''k3y'')]))),
       (2, Recv ''register bob, token guess''
             (Some (JObj [(''type'', JStr ''AGENT_REGISTER''), (''agent_id'', JStr ''bob''),
                          (''auth_token'', JStr ''guess'')])))])
     = \<lparr>CONNECTED_AGENTS = [],
         sent = [(1, ServerInfo (JStr ''bob'')), (2, ServerError InvalidToken)],
         closed_conns = {2}\<rparr>
   \<and> snd (run ''k3y''
      [(1, Recv ''register bob, token k3y''
             (Some (JObj [(''type'', JStr ''AGENT_REGISTER''), (''agent_id'', JStr ''bob''),
                          (''auth_token'', JStr ''k3y'')]))),
       (2, Recv ''register bob, token guess''
             (Some (JObj [(''type'', JStr ''AGENT_REGISTER''), (''agent_id'', JStr ''bob''),
                          (''auth_token'', JStr ''guess'')])))]) 1
     = Registered (JStr ''bob'')"
  by (simp add: run_def start_def relay_step_def handshake_def get_def and_return_def send_def
        register_agent_def finally_block_def unregister_agent_def dict_has_def dict_del_def
        close_connection_def Let_def)

text \<open>
  Claim C5. Agents \<^verbatim>\<open>alice\<close>, \<^verbatim>\<open>bob\<close> and \<^verbatim>\<open>carol\<close> are registered on the open
  connections 1, 2 and 3, and \<^verbatim>\<open>alice\<close> sends a complete \<^verbatim>\<open>BROADCAST_MESSAGE\<close>.
  While the coroutine is suspended in the \<^verbatim>\<open>send\<close> to \<^verbatim>\<open>bob\<close>, another coroutine
  registers \<^verbatim>\<open>dave\<close> (first case) or unregisters \<^verbatim>\<open>bob\<close> (second case). The
  iterator of the \<^verbatim>\<open>for\<close> statement then raises \<^verbatim>\<open>RuntimeError\<close>, the handler of
  line 156 catches it, and the loop is over: \<^verbatim>\<open>carol\<close>, who is registered all along,
  gets nothing, and \<^verbatim>\<open>alice\<close> is sent the internal-error frame.
\<close>

theorem broadcast_cut_short_by_registry_change:
  "handle_frame ''k3y'' [Some (Joined (KStr ''dave'') 4)]
     \<lparr>CONNECTED_AGENTS = [(KStr ''alice'', 1), (KStr ''bob'', 2), (KStr ''carol'', 3)],
       sent = [], closed_conns = {}\<rparr> 1 (Registered (JStr ''alice''))
     (Recv ''alice to all: hello all''
        (Some (JObj [(''type'', JStr ''BROADCAST_MESSAGE''), (''sender_id'', JStr ''alice''),
                     (''content'', JStr ''hello all'')])))
    = (\<lparr>CONNECTED_AGENTS = [(KStr ''alice'', 1), (KStr ''bob'', 2), (KStr ''carol'', 3),
                             (KStr ''dave'', 4)],
        sent = [(2, Wire ''alice to all: hello all''), (1, ServerError InternalError)],
        closed_conns = {}\<rparr>, Registered (JStr ''alice''))
   \<and> handle_frame ''k3y'' [Some (Left (KStr ''bob''))]
     \<lparr>CONNECTED_AGENTS = [(KStr ''alice'', 1), (KStr ''bob'', 2), (KStr ''carol'', 3)],
       sent = [], closed_conns = {}\<rparr> 1 (Registered (JStr ''alice''))
     (Recv ''alice to all: hello all''
        (Some (JObj [(''type'', JStr ''BROADCAST_MESSAGE''), (''sender_id'', JStr ''alice''),
                     (''content'', JStr ''hello all'')])))
    = (\<lparr>CONNECTED_AGENTS = [(KStr ''alice'', 1), (KStr ''carol'', 3)],
        sent = [(2, Wire ''alice to all: hello all''), (1, ServerError InternalError)],
        closed_conns = {}\<rparr>, Registered (JStr ''alice''))"
  by (simp add: loop_iteration_def route_def get_def broadcast.simps resume_def send_def
        dict_del_def Let_def)

end
